theory Spec2Isabelle
  imports Main "HOL-Library.Word" "HOL-Library.Signed_Division"
begin

section \<open>Machine integers and wide strings\<close>

text \<open>
  \<open>int32_t\<close>, \<open>int\<close> and \<open>unsigned int\<close> are 32-bit words; a conversion between the
  signed and the unsigned reading keeps the bits. Signed comparison is \<open><s\<close>.
\<close>

type_synonym int32 = "32 word"
type_synonym uint32 = "32 word"
type_synonym int64 = "64 word"

definition INT_MAX :: int32 where
  "INT_MAX = 2147483647"

text \<open>
  \<open>abs\<close> on \<open>int\<close>. The negation wraps, so the one value without a representable
  absolute value, \<open>INT_MIN\<close>, is returned unchanged (what the Microsoft runtime documents).
\<close>

definition abs_int :: "int32 \<Rightarrow> int32" where
  "abs_int x = (if x <s 0 then - x else x)"

definition towlower :: "char \<Rightarrow> char" where
  "towlower c =
     (case map_of (zip ''ABCDEFGHIJKLMNOPQRSTUVWXYZ'' ''abcdefghijklmnopqrstuvwxyz'') c of
        Some l \<Rightarrow> l
      | None \<Rightarrow> c)"

text \<open>\<open>_wcsicmp(a, b) == 0\<close>: the two strings agree once every letter is lowered.\<close>

definition wcsicmp_is_0 :: "string \<Rightarrow> string \<Rightarrow> bool" where
  "wcsicmp_is_0 a b = (map towlower a = map towlower b)"

text \<open>
  \<open>strncmp(a, b, n) == 0\<close> on strings without an embedded terminator: the first \<open>n\<close>
  characters agree, and a string shorter than \<open>n\<close> must agree as a whole.
\<close>

definition strncmp_is_0 :: "string \<Rightarrow> string \<Rightarrow> nat \<Rightarrow> bool" where
  "strncmp_is_0 a b n = (take n a = take n b)"

section \<open>Declarations the translation unit takes from other headers\<close>

text \<open>\<open>RawVideoType\<close> of \<open>common_types.h\<close>.\<close>

datatype RawVideoType =
    kVideoI420 | kVideoYV12 | kVideoYUY2 | kVideoUYVY | kVideoIYUV | kVideoARGB
  | kVideoRGB24 | kVideoRGB565 | kVideoARGB4444 | kVideoARGB1555 | kVideoMJPEG
  | kVideoNV12 | kVideoNV21 | kVideoBGRA | kVideoUnknown

text \<open>The fields of \<open>VideoCaptureCapability\<close> that this file reads and writes.\<close>

record VideoCaptureCapability =
  width :: int32
  height :: int32
  maxFPS :: int32
  rawType :: RawVideoType

text \<open>
  \<open>IVideoEncodingProperties\<close>: subtype, frame size and frame rate (a ratio of two
  unsigned 32-bit numbers). \<open>MediaEncodingProfile\<close> is used for its \<open>Video\<close> part only
  (\<open>Audio\<close> and \<open>Container\<close> are set to null).
\<close>

record VideoEncodingProperties =
  Subtype :: string
  Width :: uint32
  Height :: uint32
  FrameRate_Numerator :: uint32
  FrameRate_Denominator :: uint32

record MediaEncodingProfile =
  Video :: VideoEncodingProperties

text \<open>The names of \<open>MediaEncodingSubtypes\<close>, as the platform documents them.\<close>

definition MediaEncodingSubtypes_Yv12 :: string where "MediaEncodingSubtypes_Yv12 = ''YV12''"
definition MediaEncodingSubtypes_Yuy2 :: string where "MediaEncodingSubtypes_Yuy2 = ''YUY2''"
definition MediaEncodingSubtypes_Iyuv :: string where "MediaEncodingSubtypes_Iyuv = ''IYUV''"
definition MediaEncodingSubtypes_Rgb24 :: string where "MediaEncodingSubtypes_Rgb24 = ''RGB24''"
definition MediaEncodingSubtypes_Rgb32 :: string where "MediaEncodingSubtypes_Rgb32 = ''RGB32''"
definition MediaEncodingSubtypes_Mjpg :: string where "MediaEncodingSubtypes_Mjpg = ''MJPG''"
definition MediaEncodingSubtypes_Nv12 :: string where "MediaEncodingSubtypes_Nv12 = ''NV12''"

record DeviceInformation =
  DeviceInformation_Id :: string
  DeviceInformation_Name :: string

type_synonym MediaCapture = nat

datatype VideoCaptureMediaSinkProxyWinRT = SinkProxy

section \<open>The platform\<close>

text \<open>
  An asynchronous platform operation either completes, or its task faults (the exception
  surfaces where the task is observed with \<open>get\<close> or \<open>wait\<close>), or the call that was to
  create the operation raises at once.
\<close>

datatype async_outcome = Completes | Faults | Raises

text \<open>
  What one call of a public operation meets outside this file: the outcome of each platform
  call it makes, the float arithmetic of the frame rate, and the constant
  \<open>kVideoCaptureUniqueNameLength\<close> of \<open>video_capture_defines.h\<close>.
  \<^item> \<open>FindAllAsync\<close>: the enumerated devices; \<open>None\<close> when the task's \<open>get\<close> raises.
  \<^item> \<open>GetMediaCapture\<close>: the capture object of \<open>MediaCaptureDevicesWinRT\<close> for a device
    id; \<open>None\<close> when the lookup raises a \<open>Platform::Exception\<close>.
  \<^item> \<open>float_quotient n d\<close> stands for \<open>(int)((float)n / (float)d)\<close>.
\<close>

record env =
  kVideoCaptureUniqueNameLength :: int32
  FindAllAsync :: "DeviceInformation list option"
  GetMediaCapture :: "string option \<Rightarrow> MediaCapture option"
  GetAvailableMediaStreamProperties :: "MediaCapture \<Rightarrow> VideoEncodingProperties list"
  float_quotient :: "uint32 \<Rightarrow> uint32 \<Rightarrow> int32"
  InitializeAsync :: "VideoEncodingProperties \<Rightarrow> async_outcome"
  SetMediaStreamPropertiesAsync :: "VideoEncodingProperties option \<Rightarrow> async_outcome"
  StartRecordToCustomSinkAsync :: "MediaEncodingProfile \<Rightarrow> async_outcome"
  StopRecordAsync :: async_outcome

text \<open>The platform calls a run issues, in order.\<close>

datatype platform_call =
    Call_FindAllAsync
  | Call_GetMediaCapture "string option"
  | Call_GetAvailableMediaStreamProperties
  | Call_Failed_add
  | Call_Failed_remove
  | Call_new_Sink
  | Call_MediaSampleEvent_add
  | Call_MediaSampleEvent_remove
  | Call_delete_Sink
  | Call_InitializeAsync VideoEncodingProperties
  | Call_SetMediaStreamPropertiesAsync "VideoEncodingProperties option"
  | Call_StartRecordToCustomSinkAsync MediaEncodingProfile
  | Call_StopRecordAsync

text \<open>
  How a function leaves: it returns a value, a \<open>Platform::Exception\<close> propagates out of
  it, or it goes through a null handle (\<open>device\<close>, \<open>media_capture\<close>), after which
  nothing is modelled and the state is given as it was at the access.
\<close>

datatype 'a exit = Returns 'a | Throws | NullDereference

section \<open>CaptureDevice\<close>

text \<open>
  Member names are written without the trailing underscore of the source. The two event
  registration tokens are left out; \<open>incoming_frame_callback\<close> records whether the
  pointer is non-null.
\<close>

record CaptureDevice =
  media_capture :: "MediaCapture option"
  media_sink :: "VideoCaptureMediaSinkProxyWinRT option"
  incoming_frame_callback :: bool
  capture_started :: bool
  frame_width :: int32
  frame_height :: int32
  max_fps :: int32
  raw_type :: RawVideoType

definition CaptureDevice_new :: "bool \<Rightarrow> CaptureDevice" where
  "CaptureDevice_new callback =
     \<lparr>media_capture = None, media_sink = None,
      incoming_frame_callback = callback,
      capture_started = False, frame_width = 0, frame_height = 0, max_fps = 0,
      raw_type = kVideoUnknown\<rparr>"

definition CleanupSink ::
  "CaptureDevice \<Rightarrow> platform_call list \<Rightarrow> CaptureDevice \<times> platform_call list" where
  "CleanupSink d cs =
     (if media_sink d \<noteq> None
      then (d\<lparr>media_sink := None, capture_started := False\<rparr>,
            cs @ [Call_MediaSampleEvent_remove, Call_delete_Sink])
      else (d, cs))"

definition DoCleanup ::
  "CaptureDevice \<Rightarrow> platform_call list \<Rightarrow> CaptureDevice \<times> platform_call list" where
  "DoCleanup d cs =
     CleanupSink d (if media_capture d \<noteq> None then cs @ [Call_Failed_remove] else cs)"

definition Initialize ::
  "env \<Rightarrow> string option \<Rightarrow> CaptureDevice \<Rightarrow> platform_call list
     \<Rightarrow> unit exit \<times> CaptureDevice \<times> platform_call list" where
  "Initialize e deviceId d cs =
     (case GetMediaCapture e deviceId of
        Some mc \<Rightarrow>
          (Returns (), d\<lparr>media_capture := Some mc\<rparr>,
           cs @ [Call_GetMediaCapture deviceId, Call_Failed_add])
      | None \<Rightarrow>
          (let (d', cs') = DoCleanup d (cs @ [Call_GetMediaCapture deviceId])
           in (Throws, d', cs')))"

text \<open>
  \<open>Cleanup\<close>. The continuation after \<open>StopRecordAsync\<close> takes the task itself, so it runs
  \<open>DoCleanup\<close> whether the stop completed or faulted, and \<open>wait\<close> raises nothing.
\<close>

definition Cleanup ::
  "env \<Rightarrow> CaptureDevice \<Rightarrow> platform_call list
     \<Rightarrow> unit exit \<times> CaptureDevice \<times> platform_call list" where
  "Cleanup e d cs =
     (if media_capture d = None \<and> media_sink d = None then (Returns (), d, cs)
      else
        (let cs1 = (if media_capture d \<noteq> None then cs @ [Call_Failed_remove] else cs)
         in if media_capture d \<noteq> None \<and> capture_started d
            then (case StopRecordAsync e of
                    Raises \<Rightarrow> (Throws, d, cs1 @ [Call_StopRecordAsync])
                  | _ \<Rightarrow>
                      (let (d', cs') = DoCleanup d (cs1 @ [Call_StopRecordAsync])
                       in (Returns (), d', cs')))
            else (let (d', cs') = DoCleanup d cs1 in (Returns (), d', cs'))))"

text \<open>The chain of comparisons that reads the raw type off the profile's subtype.\<close>

definition raw_type_of_Subtype :: "string \<Rightarrow> RawVideoType" where
  "raw_type_of_Subtype s =
     (if wcsicmp_is_0 s MediaEncodingSubtypes_Yv12 then kVideoYV12
      else if wcsicmp_is_0 s MediaEncodingSubtypes_Yuy2 then kVideoYUY2
      else if wcsicmp_is_0 s MediaEncodingSubtypes_Iyuv then kVideoIYUV
      else if wcsicmp_is_0 s MediaEncodingSubtypes_Rgb24 then kVideoRGB24
      else if wcsicmp_is_0 s MediaEncodingSubtypes_Rgb32 then kVideoARGB
      else if wcsicmp_is_0 s MediaEncodingSubtypes_Mjpg then kVideoMJPEG
      else if wcsicmp_is_0 s MediaEncodingSubtypes_Nv12 then kVideoNV12
      else kVideoUnknown)"

text \<open>
  The three continuations of \<open>CaptureDevice::StartCapture\<close>, innermost first.

  The last one takes the task of \<open>StartRecordToCustomSinkAsync\<close> and calls \<open>get\<close> inside
  \<open>try\<close>: a fault is caught, the sink is released and the exception is thrown again.
\<close>

definition after_StartRecord ::
  "async_outcome \<Rightarrow> CaptureDevice \<Rightarrow> platform_call list
     \<Rightarrow> unit exit \<times> CaptureDevice \<times> platform_call list" where
  "after_StartRecord asyncInfo d cs =
     (case asyncInfo of
        Completes \<Rightarrow> (Returns (), d\<lparr>capture_started := True\<rparr>, cs)
      | Faults \<Rightarrow> (let (d', cs') = CleanupSink d cs in (Throws, d', cs'))
      | Raises \<Rightarrow> (Throws, d, cs))"

text \<open>
  The middle one takes the task of \<open>SetMediaStreamPropertiesAsync\<close> and never calls
  \<open>get\<close> on it: it runs whether that task completed or faulted, and starts the recording.
\<close>

definition after_SetMediaStreamProperties ::
  "env \<Rightarrow> MediaEncodingProfile \<Rightarrow> async_outcome \<Rightarrow> CaptureDevice \<Rightarrow> platform_call list
     \<Rightarrow> unit exit \<times> CaptureDevice \<times> platform_call list" where
  "after_SetMediaStreamProperties e mediaEncodingProfile asyncInfo d cs =
     (case media_capture d of
        None \<Rightarrow> (NullDereference, d, cs)
      | Some mc \<Rightarrow>
          after_StartRecord (StartRecordToCustomSinkAsync e mediaEncodingProfile) d
            (cs @ [Call_StartRecordToCustomSinkAsync mediaEncodingProfile]))"

text \<open>
  The first one takes the value of \<open>InitializeAsync\<close>, so it runs only when the sink was
  initialized; otherwise the exception passes through the chain to \<open>wait\<close>.
\<close>

definition after_InitializeAsync ::
  "env \<Rightarrow> MediaEncodingProfile \<Rightarrow> VideoEncodingProperties option \<Rightarrow> CaptureDevice
     \<Rightarrow> platform_call list \<Rightarrow> unit exit \<times> CaptureDevice \<times> platform_call list" where
  "after_InitializeAsync e mediaEncodingProfile videoEncodingProperties d cs =
     (case media_capture d of
        None \<Rightarrow> (NullDereference, d, cs)
      | Some mc \<Rightarrow>
          (case SetMediaStreamPropertiesAsync e videoEncodingProperties of
             Raises \<Rightarrow>
               (Throws, d, cs @ [Call_SetMediaStreamPropertiesAsync videoEncodingProperties])
           | asyncInfo \<Rightarrow>
               after_SetMediaStreamProperties e mediaEncodingProfile asyncInfo d
                 (cs @ [Call_SetMediaStreamPropertiesAsync videoEncodingProperties])))"

definition CaptureDevice_StartCapture ::
  "env \<Rightarrow> MediaEncodingProfile \<Rightarrow> VideoEncodingProperties option \<Rightarrow> CaptureDevice
     \<Rightarrow> platform_call list \<Rightarrow> unit exit \<times> CaptureDevice \<times> platform_call list" where
  "CaptureDevice_StartCapture e mediaEncodingProfile videoEncodingProperties d cs =
     (if media_sink d \<noteq> None \<and> capture_started d then (Throws, d, cs)
      else
        (let (d1, cs1) = CleanupSink d cs;
             d2 = d1\<lparr>frame_width := Width (Video mediaEncodingProfile),
                     frame_height := Height (Video mediaEncodingProfile),
                     max_fps := float_quotient e
                                   (FrameRate_Numerator (Video mediaEncodingProfile))
                                   (FrameRate_Denominator (Video mediaEncodingProfile)),
                     raw_type := raw_type_of_Subtype (Subtype (Video mediaEncodingProfile))\<rparr>;
             d3 = d2\<lparr>media_sink := Some SinkProxy\<rparr>;
             cs3 = cs1 @ [Call_new_Sink, Call_MediaSampleEvent_add,
                          Call_InitializeAsync (Video mediaEncodingProfile)]
         in case InitializeAsync e (Video mediaEncodingProfile) of
              Completes \<Rightarrow>
                after_InitializeAsync e mediaEncodingProfile videoEncodingProperties d3 cs3
            | _ \<Rightarrow> (Throws, d3, cs3)))"

text \<open>
  \<open>CaptureDevice::StopCapture\<close>. The continuation after \<open>StopRecordAsync\<close> takes no
  argument: it runs only when the stop completed, and \<open>wait\<close> raises otherwise.
\<close>

definition CaptureDevice_StopCapture ::
  "env \<Rightarrow> CaptureDevice \<Rightarrow> platform_call list
     \<Rightarrow> unit exit \<times> CaptureDevice \<times> platform_call list" where
  "CaptureDevice_StopCapture e d cs =
     (if capture_started d
      then (case media_capture d of
              None \<Rightarrow> (NullDereference, d, cs)
            | Some mc \<Rightarrow>
                (case StopRecordAsync e of
                   Completes \<Rightarrow>
                     (let (d', cs') = CleanupSink d (cs @ [Call_StopRecordAsync])
                      in (Returns (), d', cs'))
                 | _ \<Rightarrow> (Throws, d, cs @ [Call_StopRecordAsync])))
      else (Returns (), d, cs))"

text \<open>
  \<open>CaptureDevice::OnMediaSample\<close>. The sample carries what \<open>GetSampleTime\<close> and
  \<open>Lock\<close> hand back (\<open>GetBufferByIndex\<close> is taken to deliver the buffer). \<open>captureTime\<close> is a local: it is written to the trace, and
  \<open>OnIncomingFrame\<close> receives the buffer, its length and \<open>frameInfo\<close>.
\<close>

record MediaSample =
  hnsSampleTime :: int64
  Lock_SUCCEEDED :: bool
  videoFrame :: "8 word list"
  cbCurrentLength :: uint32

record OnIncomingFrame_call =
  arg_videoFrame :: "8 word list"
  arg_videoFrameLength :: nat
  arg_frameInfo :: VideoCaptureCapability

record OnMediaSample_effect =
  trace_captureTime :: int64
  forwarded :: OnIncomingFrame_call

text \<open>\<open>hnsSampleTime / 10000\<close> on \<open>LONGLONG\<close>: the quotient is rounded towards zero.\<close>

definition captureTime_of :: "int64 \<Rightarrow> int64" where
  "captureTime_of hns = word_of_int (sint hns sdiv 10000)"

definition OnMediaSample :: "CaptureDevice \<Rightarrow> MediaSample \<Rightarrow> OnMediaSample_effect option" where
  "OnMediaSample d args =
     (if incoming_frame_callback d
      then (let frameInfo = \<lparr>width = frame_width d, height = frame_height d,
                               maxFPS = max_fps d, rawType = raw_type d\<rparr>;
                videoFrameLength = unat (cbCurrentLength args);
                captureTime = captureTime_of (hnsSampleTime args)
            in if Lock_SUCCEEDED args
               then Some \<lparr>trace_captureTime = captureTime,
                          forwarded = \<lparr>arg_videoFrame = videoFrame args,
                                        arg_videoFrameLength = videoFrameLength,
                                        arg_frameInfo = frameInfo\<rparr>\<rparr>
               else None)
      else None)"

section \<open>VideoCaptureWinRT\<close>

record VideoCaptureWinRT =
  device_id :: "string option"
  device :: "CaptureDevice option"

definition VideoCaptureWinRT_new :: VideoCaptureWinRT where
  "VideoCaptureWinRT_new = \<lparr>device_id = None, device = None\<rparr>"

text \<open>
  \<open>WideCharToMultiByte\<close> into the 256-byte buffer \<open>currentDeviceUniqueIdUTF8\<close>: an id
  that fits is copied whole; of a longer one the buffer holds what fits.
\<close>

definition currentDeviceUniqueIdUTF8 :: "DeviceInformation \<Rightarrow> string" where
  "currentDeviceUniqueIdUTF8 devInfo = take 256 (DeviceInformation_Id devInfo)"

text \<open>
  The enumeration of \<open>Init\<close>: the id of the first device whose converted id agrees with
  the requested one on \<open>device_unique_id_length\<close> characters. \<open>strncmp\<close> takes the
  length as \<open>size_t\<close>: a negative one becomes a bound beyond the 256 bytes of the buffer,
  whatever the width of \<open>size_t\<close>. An exception inside the continuation is swallowed.
\<close>

definition find_device_id :: "env \<Rightarrow> string \<Rightarrow> int32 \<Rightarrow> string option" where
  "find_device_id e device_unique_id device_unique_id_length =
     (case FindAllAsync e of
        None \<Rightarrow> None
      | Some devInfoCollection \<Rightarrow>
          (case find (\<lambda>devInfo. strncmp_is_0 (currentDeviceUniqueIdUTF8 devInfo)
                                  device_unique_id (unat device_unique_id_length))
                     devInfoCollection of
             None \<Rightarrow> None
           | Some devInfo \<Rightarrow> Some (DeviceInformation_Id devInfo)))"

text \<open>
  \<open>VideoCaptureWinRT::Init\<close>. The length of the id is \<open>strlen\<close> converted to
  \<open>int32_t\<close>. The handler of the \<open>try\<close> block tests the member \<open>device\<close>, which the
  failed \<open>try\<close> block has not assigned.
\<close>

definition VideoCaptureWinRT_Init ::
  "env \<Rightarrow> string \<Rightarrow> VideoCaptureWinRT \<Rightarrow> platform_call list
     \<Rightarrow> int32 exit \<times> VideoCaptureWinRT \<times> platform_call list" where
  "VideoCaptureWinRT_Init e device_unique_id this cs =
     (let device_unique_id_length = (word_of_nat (length device_unique_id) :: int32)
      in if kVideoCaptureUniqueNameLength e <s device_unique_id_length
         then (Returns (- 1), this, cs)
         else
           (let this1 = this\<lparr>device_id :=
                          find_device_id e device_unique_id device_unique_id_length\<rparr>;
                cs1 = cs @ [Call_FindAllAsync]
            in case Initialize e (device_id this1) (CaptureDevice_new True) cs1 of
                 (Returns u, d, cs2) \<Rightarrow> (Returns 0, this1\<lparr>device := Some d\<rparr>, cs2)
               | (NullDereference, d, cs2) \<Rightarrow> (NullDereference, this1, cs2)
               | (Throws, d, cs2) \<Rightarrow>
                   (case device this1 of
                      None \<Rightarrow> (Returns 0, this1, cs2)
                    | Some old \<Rightarrow>
                        (case Cleanup e old cs2 of
                           (Returns u, old', cs3) \<Rightarrow>
                             (Returns (- 1), this1\<lparr>device_id := None, device := None\<rparr>, cs3)
                         | (Throws, old', cs3) \<Rightarrow>
                             (Throws, this1\<lparr>device := Some old'\<rparr>, cs3)
                         | (NullDereference, old', cs3) \<Rightarrow>
                             (NullDereference, this1\<lparr>device := Some old'\<rparr>, cs3)))))"

text \<open>The \<open>switch\<close> on the raw type; \<open>None\<close> is its \<open>default\<close> branch.\<close>

fun subtype_of_rawType :: "RawVideoType \<Rightarrow> string option" where
  "subtype_of_rawType kVideoYV12 = Some MediaEncodingSubtypes_Yv12"
| "subtype_of_rawType kVideoYUY2 = Some MediaEncodingSubtypes_Yuy2"
| "subtype_of_rawType kVideoI420 = Some MediaEncodingSubtypes_Iyuv"
| "subtype_of_rawType kVideoIYUV = Some MediaEncodingSubtypes_Iyuv"
| "subtype_of_rawType kVideoRGB24 = Some MediaEncodingSubtypes_Rgb24"
| "subtype_of_rawType kVideoARGB = Some MediaEncodingSubtypes_Rgb24"
| "subtype_of_rawType kVideoMJPEG = Some MediaEncodingSubtypes_Mjpg"
| "subtype_of_rawType kVideoNV12 = Some MediaEncodingSubtypes_Nv12"
| "subtype_of_rawType _ = None"

text \<open>
  \<open>CreateUncompressed(subtype, capability.width, capability.height)\<close> with the frame
  rate \<open>capability.maxFPS / 1\<close>.
\<close>

definition make_mediaEncodingProfile ::
  "string \<Rightarrow> VideoCaptureCapability \<Rightarrow> MediaEncodingProfile" where
  "make_mediaEncodingProfile subtype capability =
     \<lparr>Video = \<lparr>Subtype = subtype, Width = width capability, Height = height capability,
               FrameRate_Numerator = maxFPS capability, FrameRate_Denominator = 1\<rparr>\<rparr>"

subsection \<open>The search for the stream properties\<close>

text \<open>The four locals the loop updates.\<close>

record match_vars =
  videoEncodingProperties :: "VideoEncodingProperties option"
  minWidthDiff :: int32
  minHeightDiff :: int32
  minFpsDiff :: int32

definition match_init :: match_vars where
  "match_init = \<lparr>videoEncodingProperties = None, minWidthDiff = INT_MAX,
                  minHeightDiff = INT_MAX, minFpsDiff = INT_MAX\<rparr>"

definition widthDiff :: "VideoCaptureCapability \<Rightarrow> VideoEncodingProperties \<Rightarrow> int32" where
  "widthDiff capability prop = abs_int (Width prop - width capability)"

definition heightDiff :: "VideoCaptureCapability \<Rightarrow> VideoEncodingProperties \<Rightarrow> int32" where
  "heightDiff capability prop = abs_int (Height prop - height capability)"

definition propFps :: "env \<Rightarrow> VideoEncodingProperties \<Rightarrow> int32" where
  "propFps e prop = float_quotient e (FrameRate_Numerator prop) (FrameRate_Denominator prop)"

definition fpsDiff :: "env \<Rightarrow> VideoCaptureCapability \<Rightarrow> VideoEncodingProperties \<Rightarrow> int32" where
  "fpsDiff e capability prop = abs_int (propFps e prop - maxFPS capability)"

definition match_body ::
  "env \<Rightarrow> VideoCaptureCapability \<Rightarrow> string \<Rightarrow> VideoEncodingProperties \<Rightarrow> match_vars
     \<Rightarrow> match_vars" where
  "match_body e capability subtype prop v =
     (if \<not> wcsicmp_is_0 (Subtype prop) subtype then v
      else if widthDiff capability prop <s minWidthDiff v
      then v\<lparr>videoEncodingProperties := Some prop,
             minWidthDiff := widthDiff capability prop,
             minHeightDiff := heightDiff capability prop,
             minFpsDiff := fpsDiff e capability prop\<rparr>
      else if widthDiff capability prop = minWidthDiff v
      then (if heightDiff capability prop <s minHeightDiff v
            then v\<lparr>videoEncodingProperties := Some prop,
                   minHeightDiff := heightDiff capability prop,
                   minFpsDiff := fpsDiff e capability prop\<rparr>
            else if heightDiff capability prop = minHeightDiff v
            then (if fpsDiff e capability prop <s minFpsDiff v
                  then v\<lparr>videoEncodingProperties := Some prop,
                         minFpsDiff := fpsDiff e capability prop\<rparr>
                  else v)
            else v)
      else v)"

fun match_loop ::
  "env \<Rightarrow> VideoCaptureCapability \<Rightarrow> string \<Rightarrow> VideoEncodingProperties list \<Rightarrow> match_vars
     \<Rightarrow> match_vars" where
  "match_loop e capability subtype [] v = v"
| "match_loop e capability subtype (prop # streamProperties) v =
     match_loop e capability subtype streamProperties (match_body e capability subtype prop v)"

text \<open>
  \<open>VideoCaptureWinRT::StartCapture\<close>. The lookup of the capture object and of its stream
  properties stands before the \<open>try\<close> block; only \<open>CaptureDevice::StartCapture\<close> is
  inside it.
\<close>

definition VideoCaptureWinRT_StartCapture ::
  "env \<Rightarrow> VideoCaptureCapability \<Rightarrow> VideoCaptureWinRT \<Rightarrow> platform_call list
     \<Rightarrow> int32 exit \<times> VideoCaptureWinRT \<times> platform_call list" where
  "VideoCaptureWinRT_StartCapture e capability this cs =
     (case subtype_of_rawType (rawType capability) of
        None \<Rightarrow> (Returns (- 1), this, cs)
      | Some subtype \<Rightarrow>
          (let mediaEncodingProfile = make_mediaEncodingProfile subtype capability;
               cs1 = cs @ [Call_GetMediaCapture (device_id this)]
           in case GetMediaCapture e (device_id this) of
                None \<Rightarrow> (Throws, this, cs1)
              | Some mediaCapture \<Rightarrow>
                  (let streamProperties = GetAvailableMediaStreamProperties e mediaCapture;
                       v = match_loop e capability subtype streamProperties match_init;
                       cs2 = cs1 @ [Call_GetAvailableMediaStreamProperties]
                   in case device this of
                        None \<Rightarrow> (NullDereference, this, cs2)
                      | Some d \<Rightarrow>
                          (case CaptureDevice_StartCapture e mediaEncodingProfile
                                  (videoEncodingProperties v) d cs2 of
                             (Returns u, d', cs3) \<Rightarrow>
                               (Returns 0, this\<lparr>device := Some d'\<rparr>, cs3)
                           | (Throws, d', cs3) \<Rightarrow>
                               (Returns (- 1), this\<lparr>device := Some d'\<rparr>, cs3)
                           | (NullDereference, d', cs3) \<Rightarrow>
                               (NullDereference, this\<lparr>device := Some d'\<rparr>, cs3)))))"

definition VideoCaptureWinRT_StopCapture ::
  "env \<Rightarrow> VideoCaptureWinRT \<Rightarrow> platform_call list
     \<Rightarrow> int32 exit \<times> VideoCaptureWinRT \<times> platform_call list" where
  "VideoCaptureWinRT_StopCapture e this cs =
     (case device this of
        None \<Rightarrow> (NullDereference, this, cs)
      | Some d \<Rightarrow>
          (case CaptureDevice_StopCapture e d cs of
             (Returns u, d', cs') \<Rightarrow> (Returns 0, this\<lparr>device := Some d'\<rparr>, cs')
           | (Throws, d', cs') \<Rightarrow> (Throws, this\<lparr>device := Some d'\<rparr>, cs')
           | (NullDereference, d', cs') \<Rightarrow> (NullDereference, this\<lparr>device := Some d'\<rparr>, cs')))"

definition VideoCaptureWinRT_CaptureStarted :: "VideoCaptureWinRT \<Rightarrow> bool exit" where
  "VideoCaptureWinRT_CaptureStarted this =
     (case device this of
        None \<Rightarrow> NullDereference
      | Some d \<Rightarrow> Returns (capture_started d))"

section \<open>Notions the properties are stated with\<close>

text \<open>The offered formats the loop does not skip: those of the requested subtype.\<close>

definition candidates ::
  "string \<Rightarrow> VideoEncodingProperties list \<Rightarrow> VideoEncodingProperties list" where
  "candidates subtype streamProperties =
     filter (\<lambda>prop. wcsicmp_is_0 (Subtype prop) subtype) streamProperties"

text \<open>The three differences of a format, as the loop computes them, read as signed numbers.\<close>

definition diffs ::
  "env \<Rightarrow> VideoCaptureCapability \<Rightarrow> VideoEncodingProperties \<Rightarrow> int \<times> int \<times> int" where
  "diffs e capability prop =
     (sint (widthDiff capability prop), sint (heightDiff capability prop),
      sint (fpsDiff e capability prop))"

text \<open>The lexicographic order on triples: width first, then height, then frame rate.\<close>

fun lex_less :: "int \<times> int \<times> int \<Rightarrow> int \<times> int \<times> int \<Rightarrow> bool" where
  "lex_less (w, h, f) (w', h', f') =
     (w < w' \<or> (w = w' \<and> (h < h' \<or> (h = h' \<and> f < f'))))"

definition mins :: "match_vars \<Rightarrow> int \<times> int \<times> int" where
  "mins v = (sint (minWidthDiff v), sint (minHeightDiff v), sint (minFpsDiff v))"

text \<open>A started device has a sink.\<close>

definition started_has_sink :: "CaptureDevice \<Rightarrow> bool" where
  "started_has_sink d = (capture_started d \<longrightarrow> media_sink d \<noteq> None)"

subsection \<open>A platform and sessions to run the operations on\<close>

text \<open>
  The integer quotient: the value of \<open>(int)((float)n / (float)d)\<close> when \<open>n\<close> and \<open>d\<close>
  are floats without rounding and \<open>d\<close> divides \<open>n\<close>, as for the frame rates \<open>30 / 1\<close>
  used below.
\<close>

definition exact_quotient :: "uint32 \<Rightarrow> uint32 \<Rightarrow> int32" where
  "exact_quotient n d = word_of_nat (unat n div unat d)"

definition yuy2_640x480 :: VideoEncodingProperties where
  "yuy2_640x480 = \<lparr>Subtype = ''YUY2'', Width = 640, Height = 480,
                    FrameRate_Numerator = 30, FrameRate_Denominator = 1\<rparr>"

definition yuy2_1280x720 :: VideoEncodingProperties where
  "yuy2_1280x720 = \<lparr>Subtype = ''YUY2'', Width = 1280, Height = 720,
                     FrameRate_Numerator = 30, FrameRate_Denominator = 1\<rparr>"

definition nv12_1280x720 :: VideoEncodingProperties where
  "nv12_1280x720 = \<lparr>Subtype = ''NV12'', Width = 1280, Height = 720,
                     FrameRate_Numerator = 30, FrameRate_Denominator = 1\<rparr>"

definition request_640x480 :: VideoCaptureCapability where
  "request_640x480 = \<lparr>width = 640, height = 480, maxFPS = 30, rawType = kVideoYUY2\<rparr>"

text \<open>Two cameras, two YUY2 formats, and every platform call completes.\<close>

definition env_ok :: env where
  "env_ok =
     \<lparr>kVideoCaptureUniqueNameLength = 1024,
      FindAllAsync = Some [\<lparr>DeviceInformation_Id = ''camA'', DeviceInformation_Name = ''A''\<rparr>,
                           \<lparr>DeviceInformation_Id = ''camB'', DeviceInformation_Name = ''B''\<rparr>],
      GetMediaCapture = (\<lambda>deviceId. Some 1),
      GetAvailableMediaStreamProperties = (\<lambda>mediaCapture. [yuy2_640x480, yuy2_1280x720]),
      float_quotient = exact_quotient,
      InitializeAsync = (\<lambda>video. Completes),
      SetMediaStreamPropertiesAsync = (\<lambda>properties. Completes),
      StartRecordToCustomSinkAsync = (\<lambda>profile. Completes),
      StopRecordAsync = Completes\<rparr>"

text \<open>The session after \<open>Init\<close> of camera B, and after \<open>StartCapture\<close> of 640 by 480.\<close>

definition initialized_session :: VideoCaptureWinRT where
  "initialized_session =
     \<lparr>device_id = Some ''camB'',
      device = Some ((CaptureDevice_new True)\<lparr>media_capture := Some 1\<rparr>)\<rparr>"

definition started_device :: CaptureDevice where
  "started_device =
     \<lparr>media_capture = Some 1, media_sink = Some SinkProxy, incoming_frame_callback = True,
      capture_started = True, frame_width = 640, frame_height = 480, max_fps = 30,
      raw_type = kVideoYUY2\<rparr>"

definition started_session :: VideoCaptureWinRT where
  "started_session = \<lparr>device_id = Some ''camB'', device = Some started_device\<rparr>"

text \<open>A request for the largest of everything, and a degenerate format.\<close>

definition greedy_request :: VideoCaptureCapability where
  "greedy_request = \<lparr>width = 2147483647, height = 2147483647, maxFPS = 2147483647,
                      rawType = kVideoYUY2\<rparr>"

definition yuy2_0x0 :: VideoEncodingProperties where
  "yuy2_0x0 = \<lparr>Subtype = ''YUY2'', Width = 0, Height = 0,
                FrameRate_Numerator = 0, FrameRate_Denominator = 1\<rparr>"

text \<open>A request of width 0 against a narrow format and one of the largest width.\<close>

definition request_width_0 :: VideoCaptureCapability where
  "request_width_0 = \<lparr>width = 0, height = 480, maxFPS = 30, rawType = kVideoYUY2\<rparr>"

definition yuy2_2x480 :: VideoEncodingProperties where
  "yuy2_2x480 = \<lparr>Subtype = ''YUY2'', Width = 2, Height = 480,
                  FrameRate_Numerator = 30, FrameRate_Denominator = 1\<rparr>"

definition yuy2_4294967295x480 :: VideoEncodingProperties where
  "yuy2_4294967295x480 = \<lparr>Subtype = ''YUY2'', Width = 4294967295, Height = 480,
                           FrameRate_Numerator = 30, FrameRate_Denominator = 1\<rparr>"

text \<open>An ARGB request, and a device that offers an RGB32 and an RGB24 format.\<close>

definition argb_request :: VideoCaptureCapability where
  "argb_request = \<lparr>width = 640, height = 480, maxFPS = 30, rawType = kVideoARGB\<rparr>"

definition rgb24_640x480 :: VideoEncodingProperties where
  "rgb24_640x480 = \<lparr>Subtype = ''RGB24'', Width = 640, Height = 480,
                     FrameRate_Numerator = 30, FrameRate_Denominator = 1\<rparr>"

definition rgb32_640x480 :: VideoEncodingProperties where
  "rgb32_640x480 = \<lparr>Subtype = ''RGB32'', Width = 640, Height = 480,
                     FrameRate_Numerator = 30, FrameRate_Denominator = 1\<rparr>"

definition env_rgb :: env where
  "env_rgb = env_ok\<lparr>GetAvailableMediaStreamProperties :=
                       \<lambda>mediaCapture. [rgb32_640x480, rgb24_640x480]\<rparr>"

text \<open>The started state of a session: its device is started and has a sink.\<close>

definition Started :: "VideoCaptureWinRT \<Rightarrow> bool" where
  "Started this =
     (case device this of
        None \<Rightarrow> False
      | Some d \<Rightarrow> capture_started d \<and> media_sink d \<noteq> None)"

text \<open>A sample of three bytes with the given time stamp.\<close>

definition sample_at :: "int64 \<Rightarrow> MediaSample" where
  "sample_at t = \<lparr>hnsSampleTime = t, Lock_SUCCEEDED = True, videoFrame = [1, 2, 3],
                   cbCurrentLength = 3\<rparr>"

section \<open>Evaluation\<close>

lemmas eval_defs = match_body_def match_init_def INT_MAX_def widthDiff_def heightDiff_def
  fpsDiff_def propFps_def abs_int_def env_ok_def exact_quotient_def wcsicmp_is_0_def
  towlower_def word_sless_alt candidates_def diffs_def
  request_640x480_def yuy2_640x480_def yuy2_1280x720_def nv12_1280x720_def

lemmas run_defs = VideoCaptureWinRT_Init_def VideoCaptureWinRT_StartCapture_def
  VideoCaptureWinRT_StopCapture_def VideoCaptureWinRT_new_def find_device_id_def
  currentDeviceUniqueIdUTF8_def strncmp_is_0_def Initialize_def Cleanup_def DoCleanup_def
  CleanupSink_def CaptureDevice_new_def CaptureDevice_StartCapture_def
  CaptureDevice_StopCapture_def after_InitializeAsync_def after_SetMediaStreamProperties_def
  after_StartRecord_def make_mediaEncodingProfile_def raw_type_of_Subtype_def
  MediaEncodingSubtypes_Yv12_def MediaEncodingSubtypes_Yuy2_def MediaEncodingSubtypes_Iyuv_def
  MediaEncodingSubtypes_Rgb24_def MediaEncodingSubtypes_Rgb32_def MediaEncodingSubtypes_Mjpg_def
  MediaEncodingSubtypes_Nv12_def initialized_session_def started_session_def
  started_device_def

text \<open>
  The scenario of the specification: of the cameras A and B, \<open>Init\<close> binds B;
  \<open>StartCapture\<close> of 640 by 480 at 30 in YUY2 takes the first of the two offered formats
  and starts; \<open>StopCapture\<close> returns 0 and leaves the device without sink, not started.
\<close>

lemma scenario_Init:
  "VideoCaptureWinRT_Init env_ok ''camB'' VideoCaptureWinRT_new [] =
     (Returns 0, initialized_session,
      [Call_FindAllAsync, Call_GetMediaCapture (Some ''camB''), Call_Failed_add])"
  by (simp add: run_defs eval_defs)

lemma scenario_StartCapture:
  "VideoCaptureWinRT_StartCapture env_ok request_640x480 initialized_session [] =
     (Returns 0, started_session,
      [Call_GetMediaCapture (Some ''camB''), Call_GetAvailableMediaStreamProperties,
       Call_new_Sink, Call_MediaSampleEvent_add,
       Call_InitializeAsync yuy2_640x480,
       Call_SetMediaStreamPropertiesAsync (Some yuy2_640x480),
       Call_StartRecordToCustomSinkAsync \<lparr>Video = yuy2_640x480\<rparr>])"
  by (simp add: run_defs eval_defs)

lemma scenario_StopCapture:
  "VideoCaptureWinRT_StopCapture env_ok started_session [] =
     (Returns 0,
      started_session\<lparr>device := Some (started_device\<lparr>media_sink := None,
                                                       capture_started := False\<rparr>)\<rparr>,
      [Call_StopRecordAsync, Call_MediaSampleEvent_remove, Call_delete_Sink])"
  by (simp add: run_defs eval_defs)

section \<open>The search for the stream properties\<close>

lemma lex_less_irrefl: "\<not> lex_less a a"
  by (cases a) auto

lemma lex_less_trans: "lex_less a b \<Longrightarrow> lex_less b c \<Longrightarrow> lex_less a c"
  by (cases a; cases b; cases c) auto

lemma lex_less_linear: "lex_less a b \<or> a = b \<or> lex_less b a"
  by (cases a; cases b) auto

lemma lex_less_asym: "lex_less a b \<Longrightarrow> \<not> lex_less b a"
  using lex_less_irrefl lex_less_trans by blast

lemma match_body_skip:
  "\<not> wcsicmp_is_0 (Subtype prop) subtype \<Longrightarrow> match_body e capability subtype prop v = v"
  by (simp add: match_body_def)

text \<open>
  One pass through the body, for a format of the requested subtype: the locals change
  exactly when the format's triple is below the triple they hold, and then they hold the
  format and its triple.
\<close>

lemma match_body_improves:
  assumes "wcsicmp_is_0 (Subtype prop) subtype"
    and "lex_less (diffs e capability prop) (mins v)"
  shows "videoEncodingProperties (match_body e capability subtype prop v) = Some prop"
    and "mins (match_body e capability subtype prop v) = diffs e capability prop"
  using assms
  by (auto simp: match_body_def diffs_def mins_def word_sless_alt signed_word_eqI)

lemma match_body_keeps:
  assumes "wcsicmp_is_0 (Subtype prop) subtype"
    and "\<not> lex_less (diffs e capability prop) (mins v)"
  shows "match_body e capability subtype prop v = v"
  using assms
  by (auto simp: match_body_def diffs_def mins_def word_sless_alt)

text \<open>
  The loop from any values of the locals: either no candidate is below the triple they
  hold and they are unchanged, or they hold the first candidate whose triple is minimal,
  and that triple is below the one they held.
\<close>

lemma match_loop_invariant:
  "(match_loop e capability subtype props v = v \<and>
      (\<forall>p \<in> set (candidates subtype props). \<not> lex_less (diffs e capability p) (mins v)))
   \<or> (\<exists>i < length (candidates subtype props).
        videoEncodingProperties (match_loop e capability subtype props v)
          = Some (candidates subtype props ! i)
      \<and> mins (match_loop e capability subtype props v)
          = diffs e capability (candidates subtype props ! i)
      \<and> lex_less (diffs e capability (candidates subtype props ! i)) (mins v)
      \<and> (\<forall>j < length (candidates subtype props).
            \<not> lex_less (diffs e capability (candidates subtype props ! j))
                       (diffs e capability (candidates subtype props ! i)))
      \<and> (\<forall>j < i. lex_less (diffs e capability (candidates subtype props ! i))
                          (diffs e capability (candidates subtype props ! j))))"
  (is "?A props v \<or> ?B props v")
proof (induction props arbitrary: v)
  case Nil
  show ?case by (simp add: candidates_def)
next
  case (Cons p ps)
  let ?cs = "candidates subtype ps"
  let ?d = "diffs e capability"
  show ?case
  proof (cases "wcsicmp_is_0 (Subtype p) subtype")
    case False
    then have "candidates subtype (p # ps) = ?cs"
      and "match_loop e capability subtype (p # ps) v = match_loop e capability subtype ps v"
      by (simp_all add: candidates_def match_body_skip)
    then show ?thesis using Cons.IH [of v] by simp
  next
    case True
    then have cands: "candidates subtype (p # ps) = p # ?cs"
      by (simp add: candidates_def)
    show ?thesis
    proof (cases "lex_less (?d p) (mins v)")
      case less: True
      let ?v1 = "match_body e capability subtype p v"
      have v1: "videoEncodingProperties ?v1 = Some p" "mins ?v1 = ?d p"
        using match_body_improves [OF True less] by simp_all
      have loop: "match_loop e capability subtype (p # ps) v
                    = match_loop e capability subtype ps ?v1"
        by simp
      from Cons.IH [of ?v1] show ?thesis
      proof
        assume a: "?A ps ?v1"
        have "?B (p # ps) v"
          unfolding cands loop
          apply (rule exI [of _ 0])
          using a v1 less
          by (auto simp: nth_Cons lex_less_irrefl split: nat.splits dest: nth_mem)
        then show ?thesis ..
      next
        assume "?B ps ?v1"
        then obtain i where i: "i < length ?cs"
          "videoEncodingProperties (match_loop e capability subtype ps ?v1) = Some (?cs ! i)"
          "mins (match_loop e capability subtype ps ?v1) = ?d (?cs ! i)"
          "lex_less (?d (?cs ! i)) (mins ?v1)"
          "\<forall>j < length ?cs. \<not> lex_less (?d (?cs ! j)) (?d (?cs ! i))"
          "\<forall>j < i. lex_less (?d (?cs ! i)) (?d (?cs ! j))"
          by blast
        have lt_p: "lex_less (?d (?cs ! i)) (?d p)" using i(4) v1 by simp
        have "?B (p # ps) v"
          unfolding cands loop
          apply (rule exI [of _ "Suc i"])
          using i lt_p less lex_less_trans [OF lt_p less] lex_less_asym [OF lt_p]
          by (auto simp: nth_Cons split: nat.splits)
        then show ?thesis ..
      qed
    next
      case nless: False
      have loop: "match_loop e capability subtype (p # ps) v
                    = match_loop e capability subtype ps v"
        using match_body_keeps [OF True nless] by simp
      from Cons.IH [of v] show ?thesis
      proof
        assume "?A ps v"
        then have "?A (p # ps) v" unfolding cands loop using nless by simp
        then show ?thesis ..
      next
        assume "?B ps v"
        then obtain i where i: "i < length ?cs"
          "videoEncodingProperties (match_loop e capability subtype ps v) = Some (?cs ! i)"
          "mins (match_loop e capability subtype ps v) = ?d (?cs ! i)"
          "lex_less (?d (?cs ! i)) (mins v)"
          "\<forall>j < length ?cs. \<not> lex_less (?d (?cs ! j)) (?d (?cs ! i))"
          "\<forall>j < i. lex_less (?d (?cs ! i)) (?d (?cs ! j))"
          by blast
        have lt_p: "lex_less (?d (?cs ! i)) (?d p)"
          using nless i(4) lex_less_linear [of "?d (?cs ! i)" "?d p"]
            lex_less_trans [of "?d p" "?d (?cs ! i)" "mins v"] by metis
        have "?B (p # ps) v"
          unfolding cands loop
          apply (rule exI [of _ "Suc i"])
          using i lt_p lex_less_asym [OF lt_p]
          by (auto simp: nth_Cons split: nat.splits)
        then show ?thesis ..
      qed
    qed
  qed
qed

lemma diffs_le_INT_MAX:
  "\<not> lex_less (diffs e capability p) (2147483647, 2147483647, 2147483647)
   \<Longrightarrow> diffs e capability p = (2147483647, 2147483647, 2147483647)"
  using sint_lt [of "widthDiff capability p"] sint_lt [of "heightDiff capability p"]
    sint_lt [of "fpsDiff e capability p"]
  by (auto simp: diffs_def)

lemma mins_match_init: "mins match_init = (2147483647, 2147483647, 2147483647)"
  by (simp add: mins_def match_init_def INT_MAX_def)

text \<open>
  The differences are computed in 32 bits. Where the difference of the two numbers is at
  most \<open>INT_MAX\<close> in absolute value, the computed value is that absolute value.
\<close>

lemma sint_sub_mixed:
  fixes a b :: "32 word"
  assumes "\<bar>uint a - sint b\<bar> \<le> 2147483647"
  shows "sint (a - b) = uint a - sint b"
proof -
  have "sint (a - b) = signed_take_bit 31 (sint a - sint b)"
    by (simp add: sint_word_ariths)
  also have "\<dots> = signed_take_bit 31 (signed_take_bit 31 (uint a) - signed_take_bit 31 (sint b))"
    by (simp add: sint_uint)
  also have "\<dots> = signed_take_bit 31 (uint a - sint b)"
    by (simp only: signed_take_bit_diff)
  also have "\<dots> = uint a - sint b"
    using assms by (intro signed_take_bit_int_eq_self) auto
  finally show ?thesis .
qed

lemma sint_sub_signed:
  fixes a b :: "32 word"
  assumes "\<bar>sint a - sint b\<bar> \<le> 2147483647"
  shows "sint (a - b) = sint a - sint b"
proof -
  have "sint (a - b) = signed_take_bit 31 (sint a - sint b)"
    by (simp add: sint_word_ariths)
  also have "\<dots> = sint a - sint b"
    using assms by (intro signed_take_bit_int_eq_self) auto
  finally show ?thesis .
qed

lemma abs_int_exact:
  fixes x :: "32 word"
  assumes "\<bar>sint x\<bar> \<le> 2147483647"
  shows "sint (abs_int x) = \<bar>sint x\<bar>"
proof (cases "sint x < 0")
  case True
  have "sint (- x) = signed_take_bit 31 (- sint x)"
    by (simp add: sint_word_ariths)
  also have "\<dots> = - sint x"
    using assms by (intro signed_take_bit_int_eq_self) auto
  finally show ?thesis using True by (simp add: abs_int_def word_sless_alt)
next
  case False
  then show ?thesis by (simp add: abs_int_def word_sless_alt)
qed

lemma widthDiff_exact:
  assumes "\<bar>uint (Width prop) - sint (width capability)\<bar> \<le> 2147483647"
  shows "sint (widthDiff capability prop) = \<bar>uint (Width prop) - sint (width capability)\<bar>"
  using assms by (simp add: widthDiff_def abs_int_exact sint_sub_mixed)

lemma heightDiff_exact:
  assumes "\<bar>uint (Height prop) - sint (height capability)\<bar> \<le> 2147483647"
  shows "sint (heightDiff capability prop) = \<bar>uint (Height prop) - sint (height capability)\<bar>"
  using assms by (simp add: heightDiff_def abs_int_exact sint_sub_mixed)

lemma fpsDiff_exact:
  assumes "\<bar>sint (propFps e prop) - sint (maxFPS capability)\<bar> \<le> 2147483647"
  shows "sint (fpsDiff e capability prop) = \<bar>sint (propFps e prop) - sint (maxFPS capability)\<bar>"
  using assms by (simp add: fpsDiff_def abs_int_exact sint_sub_signed)

text \<open>
  C1 (as amended). Whenever some offered format of the requested subtype has a triple of
  differences other than \<open>(INT_MAX, INT_MAX, INT_MAX)\<close>, the format the loop of
  \<open>StartCapture\<close> ends with is a format of the requested subtype whose triple (width
  difference, height difference, frame-rate difference, as the loop computes them) is
  lexicographically minimal among the formats of that subtype, and it is the first such
  format in enumeration order: every earlier candidate has a strictly greater triple.
\<close>

theorem StartCapture_selects_first_minimal_format:
  assumes "\<exists>p \<in> set (candidates subtype props).
             diffs e capability p \<noteq> (2147483647, 2147483647, 2147483647)"
  shows "\<exists>i < length (candidates subtype props).
        videoEncodingProperties (match_loop e capability subtype props match_init)
          = Some (candidates subtype props ! i)
      \<and> (\<forall>j < length (candidates subtype props).
            \<not> lex_less (diffs e capability (candidates subtype props ! j))
                       (diffs e capability (candidates subtype props ! i)))
      \<and> (\<forall>j < i. lex_less (diffs e capability (candidates subtype props ! i))
                          (diffs e capability (candidates subtype props ! j)))"
  using match_loop_invariant [of e capability subtype props match_init] assms
  unfolding mins_match_init
  by (meson diffs_le_INT_MAX)

theorem StartCapture_selects_first_minimal_format_witness:
  "(\<exists>p \<in> set (candidates ''YUY2'' [nv12_1280x720, yuy2_1280x720, yuy2_640x480, yuy2_640x480]).
      diffs env_ok request_640x480 p \<noteq> (2147483647, 2147483647, 2147483647))
   \<and> (\<exists>i < length (candidates ''YUY2''
                       [nv12_1280x720, yuy2_1280x720, yuy2_640x480, yuy2_640x480]).
        videoEncodingProperties (match_loop env_ok request_640x480 ''YUY2''
            [nv12_1280x720, yuy2_1280x720, yuy2_640x480, yuy2_640x480] match_init)
          = Some (candidates ''YUY2''
                    [nv12_1280x720, yuy2_1280x720, yuy2_640x480, yuy2_640x480] ! i)
      \<and> (\<forall>j < length (candidates ''YUY2''
                          [nv12_1280x720, yuy2_1280x720, yuy2_640x480, yuy2_640x480]).
            \<not> lex_less
                (diffs env_ok request_640x480
                   (candidates ''YUY2''
                      [nv12_1280x720, yuy2_1280x720, yuy2_640x480, yuy2_640x480] ! j))
                (diffs env_ok request_640x480
                   (candidates ''YUY2''
                      [nv12_1280x720, yuy2_1280x720, yuy2_640x480, yuy2_640x480] ! i)))
      \<and> (\<forall>j < i.
            lex_less
              (diffs env_ok request_640x480
                 (candidates ''YUY2''
                    [nv12_1280x720, yuy2_1280x720, yuy2_640x480, yuy2_640x480] ! i))
              (diffs env_ok request_640x480
                 (candidates ''YUY2''
                    [nv12_1280x720, yuy2_1280x720, yuy2_640x480, yuy2_640x480] ! j))))
   \<and> videoEncodingProperties (match_loop env_ok request_640x480 ''YUY2''
            [nv12_1280x720, yuy2_1280x720, yuy2_640x480, yuy2_640x480] match_init)
          = Some yuy2_640x480"
proof -
  let ?props = "[nv12_1280x720, yuy2_1280x720, yuy2_640x480, yuy2_640x480]"
  have h: "\<exists>p \<in> set (candidates ''YUY2'' ?props).
      diffs env_ok request_640x480 p \<noteq> (2147483647, 2147483647, 2147483647)"
    by (simp add: eval_defs)
  have r: "videoEncodingProperties (match_loop env_ok request_640x480 ''YUY2'' ?props match_init)
          = Some yuy2_640x480"
    by (simp add: eval_defs)
  show ?thesis
    using h StartCapture_selects_first_minimal_format [OF h] r by blast
qed

text \<open>
  C1 as stated fails at the limits of \<open>int\<close>. Where the only format of the requested
  subtype lies \<open>INT_MAX\<close> away on all three axes, the locals start at \<open>INT_MAX\<close>, no
  comparison is strict, and the loop ends with no format although a candidate exists.
  And the differences are computed in 32 bits: for a requested width of 0 the offered
  width 4294967295 counts as 1 away and is preferred to the offered width 2.
\<close>

theorem StartCapture_selection_at_the_limits_of_int:
  "candidates ''YUY2'' [yuy2_0x0] = [yuy2_0x0]
   \<and> videoEncodingProperties (match_loop env_ok greedy_request ''YUY2'' [yuy2_0x0] match_init)
       = None
   \<and> candidates ''YUY2'' [yuy2_2x480, yuy2_4294967295x480]
       = [yuy2_2x480, yuy2_4294967295x480]
   \<and> videoEncodingProperties
         (match_loop env_ok request_width_0 ''YUY2'' [yuy2_2x480, yuy2_4294967295x480]
            match_init)
       = Some yuy2_4294967295x480
   \<and> \<bar>uint (Width yuy2_2x480) - sint (width request_width_0)\<bar>
       < \<bar>uint (Width yuy2_4294967295x480) - sint (width request_width_0)\<bar>"
  by (simp add: eval_defs greedy_request_def yuy2_0x0_def request_width_0_def yuy2_2x480_def
      yuy2_4294967295x480_def)

section \<open>The invariant of the capture device\<close>

lemma CleanupSink_started_has_sink:
  "started_has_sink d \<Longrightarrow> started_has_sink (fst (CleanupSink d cs))"
  by (auto simp: CleanupSink_def started_has_sink_def)

lemma CleanupSink_releases:
  "started_has_sink d \<Longrightarrow>
     media_sink (fst (CleanupSink d cs)) = None \<and> \<not> capture_started (fst (CleanupSink d cs))"
  by (auto simp: CleanupSink_def started_has_sink_def)

lemma DoCleanup_started_has_sink:
  "started_has_sink d \<Longrightarrow> started_has_sink (fst (DoCleanup d cs))"
  by (simp add: DoCleanup_def CleanupSink_started_has_sink)

lemma Initialize_started_has_sink:
  "started_has_sink d \<Longrightarrow> started_has_sink (fst (snd (Initialize e deviceId d cs)))"
  using DoCleanup_started_has_sink [of d]
  by (auto simp: Initialize_def started_has_sink_def split: option.splits prod.splits)

lemma Cleanup_started_has_sink:
  "started_has_sink d \<Longrightarrow> started_has_sink (fst (snd (Cleanup e d cs)))"
  by (auto simp: Cleanup_def DoCleanup_def CleanupSink_def started_has_sink_def Let_def
      split: option.splits prod.splits async_outcome.splits)

lemma StartCapture_started_has_sink:
  "started_has_sink d \<Longrightarrow>
     started_has_sink (fst (snd (CaptureDevice_StartCapture e p props d cs)))"
  by (auto simp: CaptureDevice_StartCapture_def after_InitializeAsync_def
      after_SetMediaStreamProperties_def after_StartRecord_def CleanupSink_def
      started_has_sink_def Let_def
      split: option.splits prod.splits async_outcome.splits)

lemma StopCapture_started_has_sink:
  "started_has_sink d \<Longrightarrow> started_has_sink (fst (snd (CaptureDevice_StopCapture e d cs)))"
  by (auto simp: CaptureDevice_StopCapture_def CleanupSink_def started_has_sink_def Let_def
      split: option.splits prod.splits async_outcome.splits)

text \<open>
  C10. A started device has a sink: the constructor establishes it, and \<open>Initialize\<close>,
  \<open>StartCapture\<close>, \<open>StopCapture\<close>, \<open>CleanupSink\<close>, \<open>DoCleanup\<close> and \<open>Cleanup\<close> keep it,
  whatever the platform does and however they leave. \<open>CleanupSink\<close>, the one place that
  releases the sink, leaves the device without sink and not started.
\<close>

theorem started_has_sink_preserved:
  assumes "started_has_sink d"
  shows "started_has_sink (CaptureDevice_new callback)
    \<and> started_has_sink (fst (snd (Initialize e deviceId d cs)))
    \<and> started_has_sink (fst (snd (CaptureDevice_StartCapture e profile properties d cs)))
    \<and> started_has_sink (fst (snd (CaptureDevice_StopCapture e d cs)))
    \<and> started_has_sink (fst (CleanupSink d cs))
    \<and> started_has_sink (fst (DoCleanup d cs))
    \<and> started_has_sink (fst (snd (Cleanup e d cs)))
    \<and> media_sink (fst (CleanupSink d cs)) = None
    \<and> \<not> capture_started (fst (CleanupSink d cs))"
  using assms CleanupSink_releases [of d cs]
  by (simp add: Initialize_started_has_sink StartCapture_started_has_sink
      StopCapture_started_has_sink CleanupSink_started_has_sink DoCleanup_started_has_sink
      Cleanup_started_has_sink)
     (simp add: CaptureDevice_new_def started_has_sink_def)

theorem started_has_sink_preserved_witness:
  "started_has_sink started_device
    \<and> started_has_sink (CaptureDevice_new True)
    \<and> started_has_sink (fst (snd (Initialize env_ok (Some ''camB'') started_device [])))
    \<and> started_has_sink (fst (snd (CaptureDevice_StartCapture env_ok
          (make_mediaEncodingProfile ''YUY2'' request_640x480) (Some yuy2_640x480)
          started_device [])))
    \<and> started_has_sink (fst (snd (CaptureDevice_StopCapture env_ok started_device [])))
    \<and> started_has_sink (fst (CleanupSink started_device []))
    \<and> started_has_sink (fst (DoCleanup started_device []))
    \<and> started_has_sink (fst (snd (Cleanup env_ok started_device [])))
    \<and> media_sink (fst (CleanupSink started_device [])) = None
    \<and> \<not> capture_started (fst (CleanupSink started_device []))"
proof -
  have h: "started_has_sink started_device"
    by (simp add: started_has_sink_def started_device_def)
  show ?thesis
    using h started_has_sink_preserved [OF h, of True env_ok "Some ''camB''" "[]"
        "make_mediaEncodingProfile ''YUY2'' request_640x480" "Some yuy2_640x480"]
    by blast
qed

section \<open>Init\<close>

lemma sint_word_of_nat_32:
  assumes "n < 2147483648"
  shows "sint (word_of_nat n :: 32 word) = int n"
proof -
  have "sint (word_of_nat n :: 32 word) = signed_take_bit 31 (int n)"
    by (simp add: signed_of_nat)
  also have "\<dots> = int n"
    using assms by (intro signed_take_bit_int_eq_self) auto
  finally show ?thesis .
qed

text \<open>
  C7 (as amended). For every device identifier longer than
  \<open>kVideoCaptureUniqueNameLength\<close> and shorter than \<open>2^31\<close> characters (so that its
  length is the \<open>int32_t\<close> the code compares), \<open>Init\<close> returns -1, has changed nothing
  in the session and has made no platform call: no device was enumerated.
\<close>

theorem Init_rejects_long_identifier:
  assumes "sint (kVideoCaptureUniqueNameLength e) < int (length device_unique_id)"
    and "length device_unique_id < 2147483648"
  shows "VideoCaptureWinRT_Init e device_unique_id this cs = (Returns (- 1), this, cs)"
  using assms
  by (simp add: VideoCaptureWinRT_Init_def word_sless_alt sint_word_of_nat_32)

theorem Init_rejects_long_identifier_witness:
  "sint (kVideoCaptureUniqueNameLength env_ok) < int (length (replicate 1025 CHR ''c''))
   \<and> length (replicate 1025 CHR ''c'') < 2147483648
   \<and> VideoCaptureWinRT_Init env_ok (replicate 1025 CHR ''c'') initialized_session []
       = (Returns (- 1), initialized_session, [])"
proof -
  have h1: "sint (kVideoCaptureUniqueNameLength env_ok) < int (length (replicate 1025 CHR ''c''))"
    by (simp add: env_ok_def)
  have h2: "length (replicate 1025 CHR ''c'') < 2147483648"
    by simp
  show ?thesis using h1 h2 Init_rejects_long_identifier [OF h1 h2] by simp
qed

text \<open>
  C7 as stated fails for an identifier of \<open>2^31\<close> characters: its length, converted to
  \<open>int32_t\<close>, is negative and passes the test, and \<open>Init\<close> goes on to enumerate the
  devices and returns 0.
\<close>

theorem Init_accepts_identifier_of_2147483648_characters:
  "sint (kVideoCaptureUniqueNameLength env_ok)
      < int (length (replicate 2147483648 CHR ''c''))
   \<and> VideoCaptureWinRT_Init env_ok (replicate 2147483648 CHR ''c'') VideoCaptureWinRT_new []
       = (Returns 0,
          \<lparr>device_id = None,
           device = Some ((CaptureDevice_new True)\<lparr>media_capture := Some 1\<rparr>)\<rparr>,
          [Call_FindAllAsync, Call_GetMediaCapture None, Call_Failed_add])"
proof -
  have "length s \<noteq> 2147483648 \<Longrightarrow> s \<noteq> replicate 2147483648 CHR ''c''" for s
    by auto
  then have "''camA'' \<noteq> replicate 2147483648 CHR ''c''"
    and "''camB'' \<noteq> replicate 2147483648 CHR ''c''"
    by simp_all
  then show ?thesis
    by (simp add: run_defs eval_defs)
qed

text \<open>
  C3. \<open>Init\<close> on a fresh object, with a platform whose lookup of the capture object
  raises: \<open>Initialize\<close> throws, the handler finds the member \<open>device\<close> null and skips
  its body, and \<open>Init\<close> returns 0, with \<open>device\<close> null and \<open>device_id\<close> set.
\<close>

theorem Init_returns_0_when_Initialize_throws:
  "VideoCaptureWinRT_Init (env_ok\<lparr>GetMediaCapture := \<lambda>deviceId. None\<rparr>) ''camB''
      VideoCaptureWinRT_new [] =
     (Returns 0, \<lparr>device_id = Some ''camB'', device = None\<rparr>,
      [Call_FindAllAsync, Call_GetMediaCapture (Some ''camB'')])"
  by (simp add: run_defs eval_defs)

section \<open>StartCapture and StopCapture\<close>

text \<open>
  C4. \<open>StartCapture\<close> on the initialized session, with a platform on which the
  initialization of the sink faults: \<open>StartCapture\<close> returns -1, and the sink it created
  is still held by the device; no call releases it.
\<close>

theorem StartCapture_keeps_sink_when_InitializeAsync_faults:
  "VideoCaptureWinRT_StartCapture (env_ok\<lparr>InitializeAsync := \<lambda>video. Faults\<rparr>)
      request_640x480 initialized_session [] =
     (Returns (- 1),
      started_session\<lparr>device := Some (started_device\<lparr>capture_started := False\<rparr>)\<rparr>,
      [Call_GetMediaCapture (Some ''camB''), Call_GetAvailableMediaStreamProperties,
       Call_new_Sink, Call_MediaSampleEvent_add, Call_InitializeAsync yuy2_640x480])"
  by (simp add: run_defs eval_defs)

text \<open>
  C6. \<open>StopCapture\<close> on the started session, with a platform on which the stop of the
  recording faults: the exception leaves \<open>StopCapture\<close>, no 0 is returned, and the session
  is as before, started and with its sink.
\<close>

theorem StopCapture_throws_when_StopRecordAsync_faults:
  "VideoCaptureWinRT_StopCapture (env_ok\<lparr>StopRecordAsync := Faults\<rparr>) started_session [] =
     (Throws, started_session, [Call_StopRecordAsync])"
  by (simp add: run_defs eval_defs)

text \<open>
  C2. \<open>StartCapture\<close> of a YUY2 request on the initialized session, when the device
  offers an NV12 format only. No check stands between the loop and the call of
  \<open>CaptureDevice::StartCapture\<close>: the null properties are passed on. Where the platform
  completes every step, \<open>StartCapture\<close> returns 0 and the session is started; where the
  platform refuses the null properties, \<open>StartCapture\<close> returns -1 after it has
  overwritten the negotiated format, created a sink and initialized it.
\<close>

theorem StartCapture_proceeds_without_matching_format:
  "VideoCaptureWinRT_StartCapture
      (env_ok\<lparr>GetAvailableMediaStreamProperties := \<lambda>mediaCapture. [nv12_1280x720]\<rparr>)
      request_640x480 initialized_session [] =
     (Returns 0, started_session,
      [Call_GetMediaCapture (Some ''camB''), Call_GetAvailableMediaStreamProperties,
       Call_new_Sink, Call_MediaSampleEvent_add,
       Call_InitializeAsync yuy2_640x480,
       Call_SetMediaStreamPropertiesAsync None,
       Call_StartRecordToCustomSinkAsync \<lparr>Video = yuy2_640x480\<rparr>])
   \<and> VideoCaptureWinRT_StartCapture
      (env_ok\<lparr>GetAvailableMediaStreamProperties := \<lambda>mediaCapture. [nv12_1280x720],
              SetMediaStreamPropertiesAsync :=
                \<lambda>properties. case properties of None \<Rightarrow> Raises | Some p \<Rightarrow> Completes\<rparr>)
      request_640x480 initialized_session [] =
     (Returns (- 1),
      started_session\<lparr>device := Some (started_device\<lparr>capture_started := False\<rparr>)\<rparr>,
      [Call_GetMediaCapture (Some ''camB''), Call_GetAvailableMediaStreamProperties,
       Call_new_Sink, Call_MediaSampleEvent_add,
       Call_InitializeAsync yuy2_640x480,
       Call_SetMediaStreamPropertiesAsync None])"
  by (simp add: run_defs eval_defs)

text \<open>A \<open>StartCapture\<close> that returns 0 leaves the session started.\<close>

lemma StartCapture_success_Started:
  assumes "VideoCaptureWinRT_StartCapture e capability this cs = (Returns 0, this', cs')"
  shows "Started this'"
  using assms
  by (auto simp: VideoCaptureWinRT_StartCapture_def CaptureDevice_StartCapture_def
      after_InitializeAsync_def after_SetMediaStreamProperties_def after_StartRecord_def
      CleanupSink_def Started_def Let_def
      split: option.splits prod.splits async_outcome.splits exit.splits if_splits)

lemma StartCapture_success_lookup:
  assumes "VideoCaptureWinRT_StartCapture e capability this cs = (Returns 0, this', cs')"
  shows "GetMediaCapture e (device_id this') \<noteq> None"
  using assms
  by (auto simp: VideoCaptureWinRT_StartCapture_def Let_def
      split: option.splits prod.splits exit.splits)

lemma StartCapture_when_Started:
  assumes "Started this"
  shows "fst (snd (VideoCaptureWinRT_StartCapture e capability this cs)) = this"
    and "fst (VideoCaptureWinRT_StartCapture e capability this cs)
         = (if subtype_of_rawType (rawType capability) \<noteq> None
               \<and> GetMediaCapture e (device_id this) = None
            then Throws else Returns (- 1))"
  using assms
  by (auto simp: VideoCaptureWinRT_StartCapture_def CaptureDevice_StartCapture_def
      Started_def Let_def split: option.splits)

text \<open>
  Two starts on one platform: after a \<open>StartCapture\<close> that returned 0, the next
  \<open>StartCapture\<close> returns -1 and leaves the session as the first start made it.
\<close>

lemma second_StartCapture_on_one_platform:
  assumes "VideoCaptureWinRT_StartCapture e capability this cs = (Returns 0, this', cs')"
  shows "fst (VideoCaptureWinRT_StartCapture e capability' this' cs') = Returns (- 1)
     \<and> fst (snd (VideoCaptureWinRT_StartCapture e capability' this' cs')) = this'"
  using StartCapture_when_Started [OF StartCapture_success_Started [OF assms],
      of e capability' cs']
    StartCapture_success_lookup [OF assms]
  by simp




text \<open>
  The format the loop ends with is the one \<open>StartCapture\<close> applies: once the sink is
  initialized, \<open>SetMediaStreamPropertiesAsync\<close> is called with it.
\<close>

lemma StartCapture_applies_selected_format:
  assumes "subtype_of_rawType (rawType capability) = Some subtype"
    and "GetMediaCapture e (device_id this) = Some mediaCapture"
    and "device this = Some d"
    and "\<not> (media_sink d \<noteq> None \<and> capture_started d)"
    and "media_capture d \<noteq> None"
    and "InitializeAsync e (Video (make_mediaEncodingProfile subtype capability)) = Completes"
  shows "Call_SetMediaStreamPropertiesAsync
           (videoEncodingProperties
              (match_loop e capability subtype
                 (GetAvailableMediaStreamProperties e mediaCapture) match_init))
         \<in> set (snd (snd (VideoCaptureWinRT_StartCapture e capability this cs)))"
  using assms
  by (auto simp: VideoCaptureWinRT_StartCapture_def CaptureDevice_StartCapture_def
      after_InitializeAsync_def after_SetMediaStreamProperties_def after_StartRecord_def
      CleanupSink_def Let_def
      split: option.splits prod.splits async_outcome.splits exit.splits if_splits)

lemma CaptureStarted_Started:
  "Started this \<Longrightarrow> VideoCaptureWinRT_CaptureStarted this = Returns True"
  by (auto simp: Started_def VideoCaptureWinRT_CaptureStarted_def split: option.splits)

text \<open>When the device is not started, \<open>StopCapture\<close> returns 0 and does nothing.\<close>

lemma StopCapture_not_started:
  assumes "device this = Some d" and "\<not> capture_started d"
  shows "VideoCaptureWinRT_StopCapture e this cs = (Returns 0, this, cs)"
  using assms
  by (simp add: VideoCaptureWinRT_StopCapture_def CaptureDevice_StopCapture_def)

lemma match_body_rawType:
  "match_body e (capability\<lparr>rawType := r\<rparr>) subtype prop v
     = match_body e capability subtype prop v"
  by (simp add: match_body_def widthDiff_def heightDiff_def fpsDiff_def)

lemma match_loop_rawType:
  "match_loop e (capability\<lparr>rawType := r\<rparr>) subtype props v
     = match_loop e capability subtype props v"
  by (induction props arbitrary: v) (simp_all add: match_body_rawType)

text \<open>
  An ARGB request is run exactly as the same request in RGB24, and RGB24 is not the
  32-bit subtype.
\<close>

lemma ARGB_request_runs_as_RGB24:
  "subtype_of_rawType kVideoARGB = Some MediaEncodingSubtypes_Rgb24
   \<and> \<not> wcsicmp_is_0 MediaEncodingSubtypes_Rgb24 MediaEncodingSubtypes_Rgb32
   \<and> subtype_of_rawType kVideoRGB24 = Some MediaEncodingSubtypes_Rgb24
   \<and> VideoCaptureWinRT_StartCapture e (capability\<lparr>rawType := kVideoARGB\<rparr>) this cs
       = VideoCaptureWinRT_StartCapture e (capability\<lparr>rawType := kVideoRGB24\<rparr>) this cs"
  by (simp add: VideoCaptureWinRT_StartCapture_def make_mediaEncodingProfile_def
      match_loop_rawType wcsicmp_is_0_def MediaEncodingSubtypes_Rgb24_def
      MediaEncodingSubtypes_Rgb32_def towlower_def Let_def cong: option.case_cong)

lemma match_loop_selects_candidate:
  assumes "videoEncodingProperties (match_loop e capability subtype props match_init) = Some p"
  shows "p \<in> set props \<and> wcsicmp_is_0 (Subtype p) subtype"
proof -
  from match_loop_invariant [of e capability subtype props match_init] assms
  obtain i where "i < length (candidates subtype props)"
    and "p = candidates subtype props ! i"
    by (auto simp: match_init_def)
  then have "p \<in> set (candidates subtype props)" by simp
  then show ?thesis by (simp add: candidates_def)
qed

lemma raw_type_of_Rgb24: "raw_type_of_Subtype MediaEncodingSubtypes_Rgb24 = kVideoRGB24"
  by (simp add: run_defs eval_defs)

lemma Rgb24_is_not_Rgb32:
  "wcsicmp_is_0 s MediaEncodingSubtypes_Rgb24 \<Longrightarrow> \<not> wcsicmp_is_0 s MediaEncodingSubtypes_Rgb32"
  by (simp add: wcsicmp_is_0_def MediaEncodingSubtypes_Rgb24_def MediaEncodingSubtypes_Rgb32_def
      towlower_def)

lemma CaptureDevice_StartCapture_raw_type:
  assumes "CaptureDevice_StartCapture e profile properties d cs = (Returns u, d', cs')"
  shows "raw_type d' = raw_type_of_Subtype (Subtype (Video profile)) \<and> capture_started d'"
  using assms
  by (auto simp: CaptureDevice_StartCapture_def after_InitializeAsync_def
      after_SetMediaStreamProperties_def after_StartRecord_def CleanupSink_def Let_def
      split: option.splits prod.splits async_outcome.splits if_splits)

text \<open>
  C9. For every \<open>StartCapture\<close> request whose raw type is ARGB, on every platform and
  session: the profile handed to the device has the subtype RGB24, with the requested
  size and frame rate, and the stream properties handed to it are those the search finds
  for the subtype RGB24; a format the search for RGB24 ends with is an offered format
  whose subtype is RGB24 and not RGB32; and when \<open>StartCapture\<close> returns 0 the device is
  started with the raw type RGB24.
\<close>

theorem ARGB_request_uses_Rgb24_subtype:
  assumes "rawType capability = kVideoARGB"
  shows "VideoCaptureWinRT_StartCapture e capability this cs =
      (case GetMediaCapture e (device_id this) of
         None \<Rightarrow> (Throws, this, cs @ [Call_GetMediaCapture (device_id this)])
       | Some mediaCapture \<Rightarrow>
           (case device this of
              None \<Rightarrow>
                (NullDereference, this,
                 cs @ [Call_GetMediaCapture (device_id this),
                       Call_GetAvailableMediaStreamProperties])
            | Some d \<Rightarrow>
                (case CaptureDevice_StartCapture e
                        \<lparr>Video = \<lparr>Subtype = MediaEncodingSubtypes_Rgb24,
                                   Width = width capability, Height = height capability,
                                   FrameRate_Numerator = maxFPS capability,
                                   FrameRate_Denominator = 1\<rparr>\<rparr>
                        (videoEncodingProperties
                           (match_loop e capability MediaEncodingSubtypes_Rgb24
                              (GetAvailableMediaStreamProperties e mediaCapture) match_init))
                        d (cs @ [Call_GetMediaCapture (device_id this),
                                 Call_GetAvailableMediaStreamProperties]) of
                   (Returns u, d', cs3) \<Rightarrow> (Returns 0, this\<lparr>device := Some d'\<rparr>, cs3)
                 | (Throws, d', cs3) \<Rightarrow> (Returns (- 1), this\<lparr>device := Some d'\<rparr>, cs3)
                 | (NullDereference, d', cs3) \<Rightarrow>
                     (NullDereference, this\<lparr>device := Some d'\<rparr>, cs3))))
    \<and> (videoEncodingProperties
          (match_loop e capability MediaEncodingSubtypes_Rgb24 props match_init) = Some p
        \<longrightarrow> p \<in> set props \<and> wcsicmp_is_0 (Subtype p) MediaEncodingSubtypes_Rgb24
            \<and> \<not> wcsicmp_is_0 (Subtype p) MediaEncodingSubtypes_Rgb32)
    \<and> (fst (VideoCaptureWinRT_StartCapture e capability this cs) = Returns 0
        \<longrightarrow> (case device (fst (snd (VideoCaptureWinRT_StartCapture e capability this cs))) of
               None \<Rightarrow> False
             | Some d' \<Rightarrow> capture_started d' \<and> raw_type d' = kVideoRGB24))"
proof (intro conjI impI)
  show eq: "VideoCaptureWinRT_StartCapture e capability this cs =
      (case GetMediaCapture e (device_id this) of
         None \<Rightarrow> (Throws, this, cs @ [Call_GetMediaCapture (device_id this)])
       | Some mediaCapture \<Rightarrow>
           (case device this of
              None \<Rightarrow>
                (NullDereference, this,
                 cs @ [Call_GetMediaCapture (device_id this),
                       Call_GetAvailableMediaStreamProperties])
            | Some d \<Rightarrow>
                (case CaptureDevice_StartCapture e
                        \<lparr>Video = \<lparr>Subtype = MediaEncodingSubtypes_Rgb24,
                                   Width = width capability, Height = height capability,
                                   FrameRate_Numerator = maxFPS capability,
                                   FrameRate_Denominator = 1\<rparr>\<rparr>
                        (videoEncodingProperties
                           (match_loop e capability MediaEncodingSubtypes_Rgb24
                              (GetAvailableMediaStreamProperties e mediaCapture) match_init))
                        d (cs @ [Call_GetMediaCapture (device_id this),
                                 Call_GetAvailableMediaStreamProperties]) of
                   (Returns u, d', cs3) \<Rightarrow> (Returns 0, this\<lparr>device := Some d'\<rparr>, cs3)
                 | (Throws, d', cs3) \<Rightarrow> (Returns (- 1), this\<lparr>device := Some d'\<rparr>, cs3)
                 | (NullDereference, d', cs3) \<Rightarrow>
                     (NullDereference, this\<lparr>device := Some d'\<rparr>, cs3))))"
    using assms
    by (simp add: VideoCaptureWinRT_StartCapture_def make_mediaEncodingProfile_def Let_def
        split: option.splits)
next
  assume "videoEncodingProperties
          (match_loop e capability MediaEncodingSubtypes_Rgb24 props match_init) = Some p"
  from match_loop_selects_candidate [OF this]
  show "p \<in> set props" and "wcsicmp_is_0 (Subtype p) MediaEncodingSubtypes_Rgb24"
    and "\<not> wcsicmp_is_0 (Subtype p) MediaEncodingSubtypes_Rgb32"
    by (simp_all add: Rgb24_is_not_Rgb32)
next
  assume "fst (VideoCaptureWinRT_StartCapture e capability this cs) = Returns 0"
  then show "case device (fst (snd (VideoCaptureWinRT_StartCapture e capability this cs))) of
               None \<Rightarrow> False
             | Some d' \<Rightarrow> capture_started d' \<and> raw_type d' = kVideoRGB24"
    using assms raw_type_of_Rgb24
    by (auto simp: VideoCaptureWinRT_StartCapture_def make_mediaEncodingProfile_def Let_def
        split: option.splits prod.splits exit.splits
        dest!: CaptureDevice_StartCapture_raw_type)
qed

theorem ARGB_request_uses_Rgb24_subtype_witness:
  "rawType argb_request = kVideoARGB
   \<and> videoEncodingProperties
         (match_loop env_rgb argb_request MediaEncodingSubtypes_Rgb24
            [rgb32_640x480, rgb24_640x480] match_init) = Some rgb24_640x480
   \<and> fst (VideoCaptureWinRT_StartCapture env_rgb argb_request initialized_session [])
       = Returns 0
   \<and> rgb24_640x480 \<in> set [rgb32_640x480, rgb24_640x480]
   \<and> wcsicmp_is_0 (Subtype rgb24_640x480) MediaEncodingSubtypes_Rgb24
   \<and> \<not> wcsicmp_is_0 (Subtype rgb24_640x480) MediaEncodingSubtypes_Rgb32
   \<and> (case device (fst (snd (VideoCaptureWinRT_StartCapture env_rgb argb_request
                                initialized_session []))) of
         None \<Rightarrow> False
       | Some d' \<Rightarrow> capture_started d' \<and> raw_type d' = kVideoRGB24)"
proof -
  have h: "rawType argb_request = kVideoARGB"
    by (simp add: argb_request_def)
  have a1: "videoEncodingProperties
         (match_loop env_rgb argb_request MediaEncodingSubtypes_Rgb24
            [rgb32_640x480, rgb24_640x480] match_init) = Some rgb24_640x480"
    by (simp add: eval_defs run_defs env_rgb_def argb_request_def rgb24_640x480_def
        rgb32_640x480_def)
  have a2: "fst (VideoCaptureWinRT_StartCapture env_rgb argb_request initialized_session [])
       = Returns 0"
    by (simp add: eval_defs run_defs env_rgb_def argb_request_def rgb24_640x480_def
        rgb32_640x480_def)
  note t = ARGB_request_uses_Rgb24_subtype [OF h, of env_rgb initialized_session "[]"
      "[rgb32_640x480, rgb24_640x480]" rgb24_640x480]
  from t a1 have b1: "rgb24_640x480 \<in> set [rgb32_640x480, rgb24_640x480]
     \<and> wcsicmp_is_0 (Subtype rgb24_640x480) MediaEncodingSubtypes_Rgb24
     \<and> \<not> wcsicmp_is_0 (Subtype rgb24_640x480) MediaEncodingSubtypes_Rgb32"
    by blast
  from t a2 have b2: "case device (fst (snd (VideoCaptureWinRT_StartCapture env_rgb argb_request
                                initialized_session []))) of
         None \<Rightarrow> False
       | Some d' \<Rightarrow> capture_started d' \<and> raw_type d' = kVideoRGB24"
    by blast
  show ?thesis using h a1 a2 b1 b2 by blast
qed

section \<open>OnMediaSample\<close>

lemma sint_captureTime_of:
  "sint (captureTime_of t)
     = (if 0 \<le> sint t then sint t div 10000 else - ((- sint t) div 10000))"
proof -
  let ?k = "sint t"
  have q: "?k sdiv 10000 = (if 0 \<le> ?k then ?k div 10000 else - ((- ?k) div 10000))"
    by (auto simp: signed_divide_int_def sgn_if)
  have lo: "- (2 ^ 63) \<le> ?k" and hi: "?k < 2 ^ 63"
    using sint_ge [of t] sint_lt [of t] by simp_all
  have "- (2 ^ 63) \<le> ?k sdiv 10000 \<and> ?k sdiv 10000 < 2 ^ 63"
    unfolding q using lo hi by (auto simp: div_int_pos_iff intro: order.strict_trans1) 
  then have "sint (word_of_int (?k sdiv 10000) :: 64 word) = ?k sdiv 10000"
    by (simp add: signed_of_int signed_take_bit_int_eq_self)
  then show ?thesis by (simp add: captureTime_of_def q)
qed

lemma captureTime_of_1234560: "captureTime_of 1234560 = 123"
  by (simp add: captureTime_of_def signed_divide_int_def)

text \<open>
  C8 (as amended). For every sample delivered to a device with a frame callback whose
  buffer can be locked, the capture time that \<open>OnMediaSample\<close> computes and writes to the
  trace is the sample time in 100-nanosecond units divided by 10,000, rounded towards
  zero; and the call of \<open>OnIncomingFrame\<close> carries the buffer, its length and the
  negotiated format, and no capture time.
\<close>

theorem OnMediaSample_captureTime:
  assumes "incoming_frame_callback d" and "Lock_SUCCEEDED args"
  shows "\<exists>effect. OnMediaSample d args = Some effect
     \<and> sint (trace_captureTime effect)
         = (if 0 \<le> sint (hnsSampleTime args) then sint (hnsSampleTime args) div 10000
            else - ((- sint (hnsSampleTime args)) div 10000))
     \<and> forwarded effect
         = \<lparr>arg_videoFrame = videoFrame args,
            arg_videoFrameLength = unat (cbCurrentLength args),
            arg_frameInfo = \<lparr>width = frame_width d, height = frame_height d,
                              maxFPS = max_fps d, rawType = raw_type d\<rparr>\<rparr>"
  using assms by (simp add: OnMediaSample_def Let_def sint_captureTime_of)

theorem OnMediaSample_captureTime_witness:
  "incoming_frame_callback started_device \<and> Lock_SUCCEEDED (sample_at 1234560)
   \<and> (\<exists>effect. OnMediaSample started_device (sample_at 1234560) = Some effect
     \<and> sint (trace_captureTime effect)
         = (if 0 \<le> sint (hnsSampleTime (sample_at 1234560))
            then sint (hnsSampleTime (sample_at 1234560)) div 10000
            else - ((- sint (hnsSampleTime (sample_at 1234560))) div 10000))
     \<and> forwarded effect
         = \<lparr>arg_videoFrame = videoFrame (sample_at 1234560),
            arg_videoFrameLength = unat (cbCurrentLength (sample_at 1234560)),
            arg_frameInfo = \<lparr>width = frame_width started_device,
                              height = frame_height started_device,
                              maxFPS = max_fps started_device,
                              rawType = raw_type started_device\<rparr>\<rparr>)
   \<and> map_option trace_captureTime (OnMediaSample started_device (sample_at 1234560))
       = Some 123"
proof -
  have h1: "incoming_frame_callback started_device" by (simp add: started_device_def)
  have h2: "Lock_SUCCEEDED (sample_at 1234560)" by (simp add: sample_at_def)
  have r: "map_option trace_captureTime (OnMediaSample started_device (sample_at 1234560))
       = Some 123"
    by (simp add: OnMediaSample_def started_device_def sample_at_def captureTime_of_1234560)
  show ?thesis using h1 h2 OnMediaSample_captureTime [OF h1 h2] r by blast
qed

text \<open>
  C8 as stated fails: the samples with the time stamps 1,234,560 and 0 have the capture
  times 123 and 0, and what is forwarded to \<open>OnIncomingFrame\<close> is the same for both.
\<close>

theorem OnIncomingFrame_call_ignores_sample_time:
  "map_option forwarded (OnMediaSample started_device (sample_at 1234560))
     = map_option forwarded (OnMediaSample started_device (sample_at 0))
   \<and> OnMediaSample started_device (sample_at 1234560) \<noteq> None
   \<and> captureTime_of 1234560 = 123 \<and> captureTime_of 0 = 0"
  by (simp add: OnMediaSample_def started_device_def sample_at_def captureTime_of_1234560)
     (simp add: captureTime_of_def)

end
